theory Spec2Isabelle
  imports Main
begin

section \<open>The infrastructure config validator of the AWS provider extension\<close>

text \<open>
  A shallow embedding of \<^verbatim>\<open>pkg/controller/infrastructure/configvalidator.go\<close>:
  the method \<^verbatim>\<open>Validate\<close> and its helper \<^verbatim>\<open>validateVPC\<close>.

  \<^item> Go's \<^verbatim>\<open>error\<close> interface is a type variable \<open>'e\<close>; what the code observes of an
    error (its \<^verbatim>\<open>Error()\<close> string, its rendering under the verb \<^verbatim>\<open>%+v\<close> and the
    classification \<^verbatim>\<open>awsclient.IsNotFoundError\<close>) are functions on \<open>'e\<close>.
  \<^item> A call that returns \<^verbatim>\<open>(T, error)\<close> returns a sum: \<open>Inl err\<close> when the error is
    not nil (the code never reads the value then), \<open>Inr v\<close> otherwise. Where \<^verbatim>\<open>T\<close> is
    a pointer or an interface the value is an option, \<open>None\<close> being nil.
  \<^item> Everything outside the validator (the secret store, the cloud account) is a world
    state \<open>'w\<close> that each call takes and returns; the context argument is part of it.
  \<^item> A nil dereference is the outcome \<open>Panicked\<close>.
  \<^item> Each call on the cloud client is recorded, with its response, in a trace. The
    logger is left out: no result depends on it.
\<close>

subsection \<open>Findings: the package \<^verbatim>\<open>k8s.io/apimachinery/pkg/util/validation/field\<close>\<close>

text \<open>
  The part of the external package the validator uses. A path built by \<^verbatim>\<open>NewPath\<close>
  from names only is the list of its names, root first. A finding keeps the path pointer
  it was built from (\<open>None\<close> is the nil path), the offending value (\<open>None\<close> is the nil
  interface) and the detail.
\<close>

datatype ErrorType =
    ErrorTypeNotFound
  | ErrorTypeRequired
  | ErrorTypeDuplicate
  | ErrorTypeInvalid
  | ErrorTypeNotSupported
  | ErrorTypeForbidden
  | ErrorTypeTooLong
  | ErrorTypeTooMany
  | ErrorTypeInternal

type_synonym Path = "string list"

definition NewPath :: "string \<Rightarrow> string list \<Rightarrow> Path option" where
  "NewPath name moreNames = Some (name # moreNames)"

text \<open>
  \<^verbatim>\<open>String\<close> walks the path from the root: a named element is written after a dot
  unless it is the root, an element with an empty name is written as a subscript, which
  for a path built from names only is the empty one.
\<close>

fun pathElements :: "bool \<Rightarrow> Path \<Rightarrow> string" where
  "pathElements root [] = ''''"
| "pathElements root (n # ns) =
     (if n = '''' then ''[]'' else (if root then '''' else ''.'') @ n) @ pathElements False ns"

definition PathString :: "Path \<Rightarrow> string" where
  "PathString p = pathElements True p"

record FieldError =
  Type :: ErrorType
  Field :: "Path option"
  BadValue :: "string option"
  Detail :: string

type_synonym ErrorList = "FieldError list"

definition NotFound :: "Path option \<Rightarrow> string \<Rightarrow> FieldError" where
  "NotFound fld v = \<lparr>Type = ErrorTypeNotFound, Field = fld, BadValue = Some v, Detail = ''''\<rparr>"

definition Invalid :: "Path option \<Rightarrow> string \<Rightarrow> string \<Rightarrow> FieldError" where
  "Invalid fld v detail = \<lparr>Type = ErrorTypeInvalid, Field = fld, BadValue = Some v, Detail = detail\<rparr>"

text \<open>\<^verbatim>\<open>InternalError\<close> takes an error and keeps its \<^verbatim>\<open>Error()\<close> string: the argument here.\<close>

definition InternalError :: "Path option \<Rightarrow> string \<Rightarrow> FieldError" where
  "InternalError fld msg = \<lparr>Type = ErrorTypeInternal, Field = fld, BadValue = None, Detail = msg\<rparr>"

subsection \<open>The resource, its provider config and the collaborators\<close>

record SecretReference =
  SecretName :: string
  SecretNamespace :: string

record Infrastructure =
  ProviderConfig :: "string option"
  Region :: string
  SecretRef :: SecretReference

record VPC =
  ID :: "string option"

record Networks =
  VPC :: VPC

record InfrastructureConfig =
  Networks :: Networks

record Credentials =
  AccessKeyID :: string
  SecretAccessKey :: string

text \<open>The interface \<^verbatim>\<open>awsclient.Interface\<close>, as far as the validator calls it.\<close>

record ('w, 'e) Interface =
  GetVPCAttribute :: "string \<Rightarrow> string \<Rightarrow> 'w \<Rightarrow> ('e + bool) \<times> 'w"
  GetVPCInternetGateway :: "string \<Rightarrow> 'w \<Rightarrow> ('e + string) \<times> 'w"

text \<open>
  The validator with everything it calls that is declared elsewhere in the repository:
  \<^verbatim>\<open>helper.InfrastructureConfigFromInfrastructure\<close>, \<^verbatim>\<open>aws.GetCredentialsFromSecretRef\<close>
  (on the validator's own client), the factory's \<^verbatim>\<open>NewClient\<close>,
  \<^verbatim>\<open>awsclient.IsNotFoundError\<close>, and the two renderings of an error.
\<close>

record ('w, 'e) configValidator =
  InfrastructureConfigFromInfrastructure :: "Infrastructure \<Rightarrow> 'e + InfrastructureConfig option"
  GetCredentialsFromSecretRef :: "SecretReference \<Rightarrow> bool \<Rightarrow> 'w \<Rightarrow> ('e + Credentials option) \<times> 'w"
  NewClient :: "string \<Rightarrow> string \<Rightarrow> string \<Rightarrow> 'w \<Rightarrow> ('e + ('w, 'e) Interface option) \<times> 'w"
  IsNotFoundError :: "'e \<Rightarrow> bool"
  ErrorString :: "'e \<Rightarrow> string"
  FormatPlusV :: "'e \<Rightarrow> string"

subsection \<open>The trace of cloud calls\<close>

datatype 'e call =
    GetVPCAttributeCall string string "'e + bool"
  | GetVPCInternetGatewayCall string "'e + string"

datatype outcome = Panicked | Returned ErrorList

subsection \<open>\<^verbatim>\<open>validateVPC\<close>\<close>

text \<open>
  The loop over the attributes. The first component of the result says whether the loop
  left the function by its \<^verbatim>\<open>return allErrs\<close>.
\<close>

fun attributeLoop ::
  "('w, 'e) configValidator \<Rightarrow> ('w, 'e) Interface \<Rightarrow> string \<Rightarrow> Path option \<Rightarrow> string list \<Rightarrow>
   ErrorList \<Rightarrow> 'e call list \<Rightarrow> 'w \<Rightarrow> bool \<times> ErrorList \<times> 'e call list \<times> 'w" where
  "attributeLoop c awsClient vpcID fldPath [] allErrs tr w = (False, allErrs, tr, w)"
| "attributeLoop c awsClient vpcID fldPath (attribute # rest) allErrs tr w =
     (case GetVPCAttribute awsClient vpcID attribute w of
        (Inl err, w') \<Rightarrow>
          (True,
           (if IsNotFoundError c err
            then allErrs @ [NotFound fldPath vpcID]
            else allErrs @ [InternalError fldPath
                   (''could not get VPC attribute '' @ attribute @ '' for VPC '' @ vpcID @ '': '' @ ErrorString c err)]),
           tr @ [GetVPCAttributeCall vpcID attribute (Inl err)], w')
      | (Inr v, w') \<Rightarrow>
          attributeLoop c awsClient vpcID fldPath rest
            (if \<not> v
             then allErrs @ [Invalid fldPath vpcID (''VPC attribute '' @ attribute @ '' must be set to true'')]
             else allErrs)
            (tr @ [GetVPCAttributeCall vpcID attribute (Inr v)]) w')"

definition validateVPC ::
  "('w, 'e) configValidator \<Rightarrow> ('w, 'e) Interface \<Rightarrow> string \<Rightarrow> Path option \<Rightarrow> 'w \<Rightarrow>
   ErrorList \<times> 'e call list \<times> 'w" where
  "validateVPC c awsClient vpcID fldPath w =
     (case attributeLoop c awsClient vpcID fldPath [''enableDnsSupport'', ''enableDnsHostnames''] [] [] w of
        (True, allErrs, tr, w') \<Rightarrow> (allErrs, tr, w')
      | (False, allErrs, tr, w') \<Rightarrow>
          (case GetVPCInternetGateway awsClient vpcID w' of
             (Inl err, w'') \<Rightarrow>
               (allErrs @ [InternalError fldPath
                  (''could not get internet gateway for VPC '' @ vpcID @ '': '' @ ErrorString c err)],
                tr @ [GetVPCInternetGatewayCall vpcID (Inl err)], w'')
           | (Inr internetGatewayID, w'') \<Rightarrow>
               ((if internetGatewayID = ''''
                 then allErrs @ [Invalid fldPath vpcID ''no attached internet gateway found'']
                 else allErrs),
                tr @ [GetVPCInternetGatewayCall vpcID (Inr internetGatewayID)], w'')))"

subsection \<open>\<^verbatim>\<open>Validate\<close>\<close>

text \<open>
  The nil dereferences are where the source has them: \<^verbatim>\<open>infra\<close> at the first use,
  \<^verbatim>\<open>credentials\<close> at \<^verbatim>\<open>credentials.AccessKeyID\<close>, \<^verbatim>\<open>config\<close> at
  \<^verbatim>\<open>config.Networks\<close> (after the client was built), \<^verbatim>\<open>awsClient\<close> at its first
  method call.
\<close>

definition Validate ::
  "('w, 'e) configValidator \<Rightarrow> Infrastructure option \<Rightarrow> 'w \<Rightarrow> outcome \<times> 'e call list \<times> 'w" where
  "Validate c infra w =
     (case infra of
        None \<Rightarrow> (Panicked, [], w)
      | Some i \<Rightarrow>
          (case InfrastructureConfigFromInfrastructure c i of
             Inl err \<Rightarrow> (Returned [InternalError None (ErrorString c err)], [], w)
           | Inr config \<Rightarrow>
               (case GetCredentialsFromSecretRef c (SecretRef i) False w of
                  (Inl err, w1) \<Rightarrow>
                    (Returned [InternalError None (''could not get AWS credentials: '' @ FormatPlusV c err)], [], w1)
                | (Inr None, w1) \<Rightarrow> (Panicked, [], w1)
                | (Inr (Some credentials), w1) \<Rightarrow>
                    (case NewClient c (AccessKeyID credentials) (SecretAccessKey credentials) (Region i) w1 of
                       (Inl err, w2) \<Rightarrow>
                         (Returned [InternalError None (''could not create AWS client: '' @ FormatPlusV c err)], [], w2)
                     | (Inr awsClient, w2) \<Rightarrow>
                         (case config of
                            None \<Rightarrow> (Panicked, [], w2)
                          | Some cfg \<Rightarrow>
                              (case ID (VPC (Networks cfg)) of
                                 None \<Rightarrow> (Returned [], [], w2)
                               | Some vpcID \<Rightarrow>
                                   (case awsClient of
                                      None \<Rightarrow> (Panicked, [], w2)
                                    | Some cl \<Rightarrow>
                                        (case validateVPC c cl vpcID (NewPath ''networks'' [''vpc'', ''id'']) w2 of
                                           (allErrs, tr, w3) \<Rightarrow> (Returned allErrs, tr, w3)))))))))"

subsection \<open>What each cloud call contributes to the report\<close>

text \<open>
  The findings the specification attaches to one recorded call and its response, at a
  given field path. The theorems below compare the report accumulated by the code with
  these, call by call.
\<close>

fun findingsOf :: "('w, 'e) configValidator \<Rightarrow> Path option \<Rightarrow> 'e call \<Rightarrow> ErrorList" where
  "findingsOf c fldPath (GetVPCAttributeCall vpcID attribute (Inl err)) =
     [if IsNotFoundError c err then NotFound fldPath vpcID
      else InternalError fldPath
             (''could not get VPC attribute '' @ attribute @ '' for VPC '' @ vpcID @ '': '' @ ErrorString c err)]"
| "findingsOf c fldPath (GetVPCAttributeCall vpcID attribute (Inr v)) =
     (if v then [] else [Invalid fldPath vpcID (''VPC attribute '' @ attribute @ '' must be set to true'')])"
| "findingsOf c fldPath (GetVPCInternetGatewayCall vpcID (Inl err)) =
     [InternalError fldPath (''could not get internet gateway for VPC '' @ vpcID @ '': '' @ ErrorString c err)]"
| "findingsOf c fldPath (GetVPCInternetGatewayCall vpcID (Inr g)) =
     (if g = '''' then [Invalid fldPath vpcID ''no attached internet gateway found''] else [])"

definition findingsOfType :: "ErrorType \<Rightarrow> ErrorList \<Rightarrow> ErrorList" where
  "findingsOfType t errs = filter (\<lambda>f. Type f = t) errs"

subsection \<open>The mock collaborators of \<^verbatim>\<open>configvalidator_test.go\<close>\<close>

text \<open>
  The world of the mocks is the number of collaborator calls made so far. Each mock
  answers as programmed, whatever the world.
\<close>

datatype testError = AwsErr string string | ErrorsNew string

fun testErrorString :: "testError \<Rightarrow> string" where
  "testErrorString (AwsErr code message) = code @ '': '' @ message"
| "testErrorString (ErrorsNew text) = text"

fun testIsNotFoundError :: "testError \<Rightarrow> bool" where
  "testIsNotFoundError (AwsErr code message) = (code = ''InvalidVpcID.NotFound'')"
| "testIsNotFoundError (ErrorsNew text) = False"

definition mockInterface ::
  "testError + bool \<Rightarrow> testError + bool \<Rightarrow> testError + string \<Rightarrow> (nat, testError) Interface" where
  "mockInterface dnsSupport dnsHostnames gateway =
     \<lparr>GetVPCAttribute = (\<lambda>vpcID attribute w.
          ((if attribute = ''enableDnsSupport'' then dnsSupport else dnsHostnames), Suc w)),
      GetVPCInternetGateway = (\<lambda>vpcID w. (gateway, Suc w))\<rparr>"

definition mockValidator ::
  "testError + InfrastructureConfig option \<Rightarrow> testError + Credentials option \<Rightarrow>
   testError + (nat, testError) Interface option \<Rightarrow> (nat, testError) configValidator" where
  "mockValidator config credentials awsClient =
     \<lparr>InfrastructureConfigFromInfrastructure = (\<lambda>infra. config),
      GetCredentialsFromSecretRef = (\<lambda>ref allowDNSKeys w. (credentials, Suc w)),
      NewClient = (\<lambda>accessKeyID secretAccessKey region w. (awsClient, Suc w)),
      IsNotFoundError = testIsNotFoundError,
      ErrorString = testErrorString,
      FormatPlusV = testErrorString\<rparr>"

definition testInfra :: Infrastructure where
  "testInfra = \<lparr>ProviderConfig = Some ''{networks:{vpc:{id:vpc-123456}}}'', Region = ''eu-west-1'',
            SecretRef = \<lparr>SecretName = ''infrastructure'', SecretNamespace = ''shoot--foobar--aws''\<rparr>\<rparr>"

definition testSecret :: Credentials where
  "testSecret = \<lparr>AccessKeyID = ''accessKeyID'', SecretAccessKey = ''secretAccessKey''\<rparr>"

definition configWithVPC :: "string option \<Rightarrow> InfrastructureConfig" where
  "configWithVPC vpc = \<lparr>Networks = \<lparr>VPC = \<lparr>ID = vpc\<rparr>\<rparr>\<rparr>"

definition testValidator ::
  "testError + bool \<Rightarrow> testError + bool \<Rightarrow> testError + string \<Rightarrow> (nat, testError) configValidator" where
  "testValidator dnsSupport dnsHostnames gateway =
     mockValidator (Inr (Some (configWithVPC (Some ''vpc-123456'')))) (Inr (Some testSecret))
       (Inr (Some (mockInterface dnsSupport dnsHostnames gateway)))"

subsection \<open>Predicates on calls and collaborators used by the statements\<close>





text \<open>
  A collaborator answers identical queries identically when its response does not depend
  on the world it is asked in.
\<close>

definition identicalClientResponses :: "('w, 'e) Interface \<Rightarrow> bool" where
  "identicalClientResponses awsClient \<longleftrightarrow>
     (\<forall>vpcID attribute w w'.
        fst (GetVPCAttribute awsClient vpcID attribute w) = fst (GetVPCAttribute awsClient vpcID attribute w')) \<and>
     (\<forall>vpcID w w'.
        fst (GetVPCInternetGateway awsClient vpcID w) = fst (GetVPCInternetGateway awsClient vpcID w'))"

definition identicalResponses :: "('w, 'e) configValidator \<Rightarrow> bool" where
  "identicalResponses c \<longleftrightarrow>
     (\<forall>ref allowDNSKeys w w'.
        fst (GetCredentialsFromSecretRef c ref allowDNSKeys w) =
        fst (GetCredentialsFromSecretRef c ref allowDNSKeys w')) \<and>
     (\<forall>accessKeyID secretAccessKey region w w'.
        fst (NewClient c accessKeyID secretAccessKey region w) =
        fst (NewClient c accessKeyID secretAccessKey region w')) \<and>
     (\<forall>accessKeyID secretAccessKey region w awsClient.
        fst (NewClient c accessKeyID secretAccessKey region w) = Inr (Some awsClient) \<longrightarrow>
        identicalClientResponses awsClient)"

section \<open>Properties\<close>

subsection \<open>The runs of the network check\<close>

text \<open>The equations that evaluate a run of the mocks.\<close>

lemmas test_defs = testValidator_def mockValidator_def mockInterface_def configWithVPC_def
  testInfra_def testSecret_def Validate_def validateVPC_def NewPath_def NotFound_def Invalid_def
  InternalError_def

lemma attributeLoop_findings:
  "attributeLoop c cl vpcID p attrs errs0 tr0 w = (ret, errs, tr, w') \<Longrightarrow>
     \<exists>tr1. tr = tr0 @ tr1 \<and> errs = errs0 @ concat (map (findingsOf c p) tr1)"
proof (induction attrs arbitrary: errs0 tr0 w)
  case Nil
  then show ?case by simp
next
  case (Cons a attrs)
  show ?case
  proof (cases "GetVPCAttribute cl vpcID a w")
    case (Pair r w1)
    show ?thesis
    proof (cases r)
      case (Inl e)
      with Pair Cons.prems show ?thesis by auto
    next
      case (Inr v)
      with Pair Cons.prems Cons.IH show ?thesis 
        by (fastforce split: if_splits)
    qed
  qed
qed

lemma validateVPC_runs:
  assumes "validateVPC c cl vpcID p w = (errs, tr, w')"
  shows "errs = concat (map (findingsOf c p) tr) \<and>
     ((\<exists>e. tr = [GetVPCAttributeCall vpcID ''enableDnsSupport'' (Inl e)]) \<or>
      (\<exists>v1 e. tr = [GetVPCAttributeCall vpcID ''enableDnsSupport'' (Inr v1),
                     GetVPCAttributeCall vpcID ''enableDnsHostnames'' (Inl e)]) \<or>
      (\<exists>v1 v2 r. tr = [GetVPCAttributeCall vpcID ''enableDnsSupport'' (Inr v1),
                     GetVPCAttributeCall vpcID ''enableDnsHostnames'' (Inr v2),
                     GetVPCInternetGatewayCall vpcID r]))"
  using assms unfolding validateVPC_def
  by (auto split: prod.splits sum.splits bool.splits if_splits)


lemma Validate_calls:
  assumes "Validate c infra w = (out, tr, w')" and "tr \<noteq> []"
  shows "\<exists>i cfg cr cl vpcID w1 w2 errs.
     infra = Some i \<and> InfrastructureConfigFromInfrastructure c i = Inr (Some cfg) \<and>
     ID (VPC (Networks cfg)) = Some vpcID \<and>
     GetCredentialsFromSecretRef c (SecretRef i) False w = (Inr (Some cr), w1) \<and>
     NewClient c (AccessKeyID cr) (SecretAccessKey cr) (Region i) w1 = (Inr (Some cl), w2) \<and>
     validateVPC c cl vpcID (NewPath ''networks'' [''vpc'', ''id'']) w2 = (errs, tr, w') \<and>
     out = Returned errs"
  using assms unfolding Validate_def
  by (auto split: option.splits sum.splits prod.splits)

lemma Validate_runs:
  assumes "Validate c infra w = (out, tr, w')" and "tr \<noteq> []"
  shows "\<exists>i cfg vpcID.
     infra = Some i \<and> InfrastructureConfigFromInfrastructure c i = Inr (Some cfg) \<and>
     ID (VPC (Networks cfg)) = Some vpcID \<and>
     out = Returned (concat (map (findingsOf c (Some [''networks'', ''vpc'', ''id''])) tr)) \<and>
     ((\<exists>e. tr = [GetVPCAttributeCall vpcID ''enableDnsSupport'' (Inl e)]) \<or>
      (\<exists>v1 e. tr = [GetVPCAttributeCall vpcID ''enableDnsSupport'' (Inr v1),
                     GetVPCAttributeCall vpcID ''enableDnsHostnames'' (Inl e)]) \<or>
      (\<exists>v1 v2 r. tr = [GetVPCAttributeCall vpcID ''enableDnsSupport'' (Inr v1),
                     GetVPCAttributeCall vpcID ''enableDnsHostnames'' (Inr v2),
                     GetVPCInternetGatewayCall vpcID r]))"
proof -
  from Validate_calls [OF assms] obtain i cfg cl vpcID w2 errs where
    a: "infra = Some i" "InfrastructureConfigFromInfrastructure c i = Inr (Some cfg)"
       "ID (VPC (Networks cfg)) = Some vpcID" and
    v: "validateVPC c cl vpcID (NewPath ''networks'' [''vpc'', ''id'']) w2 = (errs, tr, w')" and
    r: "out = Returned errs"
    by blast
  from validateVPC_runs [OF v] a r show ?thesis
    unfolding NewPath_def by blast
qed

lemma findingsOf_types:
  "f \<in> set (findingsOf c p ev) \<Longrightarrow>
     Type f \<in> {ErrorTypeInternal, ErrorTypeNotFound, ErrorTypeInvalid} \<and> Field f = p"
  by (cases "(c, p, ev)" rule: findingsOf.cases)
     (auto simp: NotFound_def Invalid_def InternalError_def split: if_splits)


lemma validateVPC_calls: "validateVPC c cl v p w = (errs, tr, w') \<Longrightarrow> tr \<noteq> []"
  using validateVPC_runs [of c cl v p w errs tr w'] by auto

lemma attributeLoop_identical:
  assumes same: "identicalClientResponses cl"
  shows "attributeLoop c cl v p attrs errs0 tr0 w = (ret, errs, tr, w1) \<Longrightarrow>
     \<exists>w1'. attributeLoop c cl v p attrs errs0 tr0 w' = (ret, errs, tr, w1')"
proof (induction attrs arbitrary: errs0 tr0 w w')
  case Nil
  then show ?case by simp
next
  case (Cons a attrs)
  obtain r u where first: "GetVPCAttribute cl v a w = (r, u)"
    by (cases "GetVPCAttribute cl v a w") blast
  obtain r' u' where second: "GetVPCAttribute cl v a w' = (r', u')"
    by (cases "GetVPCAttribute cl v a w'") blast
  from same have "fst (GetVPCAttribute cl v a w) = fst (GetVPCAttribute cl v a w')"
    unfolding identicalClientResponses_def by blast
  with first second have eq: "r' = r" by simp
  show ?case
  proof (cases r)
    case (Inl e)
    with Cons.prems first second eq show ?thesis by simp
  next
    case (Inr b)
    with Cons.prems first have
      "attributeLoop c cl v p attrs
         (if \<not> b then errs0 @ [Invalid p v (''VPC attribute '' @ a @ '' must be set to true'')] else errs0)
         (tr0 @ [GetVPCAttributeCall v a (Inr b)]) u = (ret, errs, tr, w1)"
      by simp
    from Cons.IH [OF this, of u'] Inr second eq show ?thesis
      by simp
  qed
qed

lemma validateVPC_identical:
  assumes same: "identicalClientResponses cl"
    and run: "validateVPC c cl v p w = (errs, tr, w1)"
  shows "\<exists>w1'. validateVPC c cl v p w' = (errs, tr, w1')"
proof -
  let ?attrs = "[''enableDnsSupport'', ''enableDnsHostnames'']"
  obtain ret errs0 tr0 u where loop: "attributeLoop c cl v p ?attrs [] [] w = (ret, errs0, tr0, u)"
    by (metis prod_cases4)
  from attributeLoop_identical [OF same loop, of w'] obtain u' where
    loop': "attributeLoop c cl v p ?attrs [] [] w' = (ret, errs0, tr0, u')"
    by blast
  show ?thesis
  proof (cases ret)
    case True
    with run loop loop' show ?thesis
      unfolding validateVPC_def by simp
  next
    case False
    obtain r t where first: "GetVPCInternetGateway cl v u = (r, t)"
      by (cases "GetVPCInternetGateway cl v u") blast
    obtain r' t' where second: "GetVPCInternetGateway cl v u' = (r', t')"
      by (cases "GetVPCInternetGateway cl v u'") blast
    from same have "fst (GetVPCInternetGateway cl v u) = fst (GetVPCInternetGateway cl v u')"
      unfolding identicalClientResponses_def by blast
    with first second have eq: "r' = r" by simp
    from run loop loop' False first second eq show ?thesis
      unfolding validateVPC_def by (cases r) auto
  qed
qed

lemma Validate_identical:
  assumes same: "identicalResponses c"
    and run: "Validate c infra w = (out, tr, w1)"
  shows "\<exists>w1'. Validate c infra w' = (out, tr, w1')"
proof (cases infra)
  case None
  with run show ?thesis unfolding Validate_def by simp
next
  case (Some i)
  show ?thesis
  proof (cases "InfrastructureConfigFromInfrastructure c i")
    case (Inl err)
    with run Some show ?thesis unfolding Validate_def by simp
  next
    case (Inr config)
    obtain r u where first: "GetCredentialsFromSecretRef c (SecretRef i) False w = (r, u)"
      by (cases "GetCredentialsFromSecretRef c (SecretRef i) False w") blast
    obtain r' u' where second: "GetCredentialsFromSecretRef c (SecretRef i) False w' = (r', u')"
      by (cases "GetCredentialsFromSecretRef c (SecretRef i) False w'") blast
    from same have "fst (GetCredentialsFromSecretRef c (SecretRef i) False w) =
        fst (GetCredentialsFromSecretRef c (SecretRef i) False w')"
      unfolding identicalResponses_def by blast
    with first second have eq: "r' = r" by simp
    show ?thesis
    proof (cases r)
      case (Inl err)
      with run Some Inr first second eq show ?thesis unfolding Validate_def by simp
    next
      case credsOK: (Inr creds)
      show ?thesis
      proof (cases creds)
        case None
        with run Some Inr first second eq credsOK show ?thesis unfolding Validate_def by simp
      next
        case (Some credentials)
        let ?new = "NewClient c (AccessKeyID credentials) (SecretAccessKey credentials) (Region i)"
        obtain n t where nfirst: "?new u = (n, t)"
          by (cases "?new u") blast
        obtain n' t' where nsecond: "?new u' = (n', t')"
          by (cases "?new u'") blast
        from same have "fst (?new u) = fst (?new u')"
          unfolding identicalResponses_def by blast
        with nfirst nsecond have neq: "n' = n" by simp
        have client: "identicalClientResponses cl" if "n = Inr (Some cl)" for cl
          using same nfirst that unfolding identicalResponses_def by (metis fst_conv)
        have vpc: "\<exists>t1'. validateVPC c cl v p t' = (errs, tr', t1')"
          if "n = Inr (Some cl)" "validateVPC c cl v p t = (errs, tr', t1)" for cl v p errs tr' t1
          using validateVPC_identical [OF client [OF that(1)] that(2)] by blast
        from run \<open>infra = Some i\<close> Inr first second eq credsOK Some nfirst nsecond neq
        show ?thesis
          unfolding Validate_def
          by (auto split: sum.splits option.splits prod.splits dest!: vpc)
      qed
    qed
  qed
qed

text \<open>
  A resource that decodes to a spec with a network identifier, with credentials that are
  resolved and a client that is built, reaches the network check, and \<^verbatim>\<open>Validate\<close>
  returns what the check returns.
\<close>

lemma Validate_network_check:
  assumes "InfrastructureConfigFromInfrastructure c i = Inr (Some cfg)"
    and "ID (VPC (Networks cfg)) = Some vpcID"
    and "GetCredentialsFromSecretRef c (SecretRef i) False w = (Inr (Some credentials), w1)"
    and "NewClient c (AccessKeyID credentials) (SecretAccessKey credentials) (Region i) w1 =
           (Inr (Some awsClient), w2)"
  shows "Validate c (Some i) w =
     (case validateVPC c awsClient vpcID (Some [''networks'', ''vpc'', ''id'']) w2 of
        (allErrs, tr, w3) \<Rightarrow> (Returned allErrs, tr, w3))"
  using assms by (simp add: Validate_def NewPath_def)

lemma networks_vpc_id: "PathString [''networks'', ''vpc'', ''id''] = ''networks.vpc.id''"
  by (simp add: PathString_def)

text \<open>The mocks of the test file reach the network check in the world \<open>2\<close>.\<close>

lemma testValidator_config:
  "InfrastructureConfigFromInfrastructure (testValidator a b g) testInfra =
     Inr (Some (configWithVPC (Some ''vpc-123456'')))"
  by (simp add: test_defs)

lemma testValidator_declared:
  "ID (VPC (Networks (configWithVPC (Some ''vpc-123456'')))) = Some ''vpc-123456''"
  by (simp add: test_defs)

lemma testValidator_creds:
  "GetCredentialsFromSecretRef (testValidator a b g) (SecretRef testInfra) False 0 =
     (Inr (Some testSecret), 1)"
  by (simp add: test_defs)

lemma testValidator_client:
  "NewClient (testValidator a b g) (AccessKeyID testSecret) (SecretAccessKey testSecret)
     (Region testInfra) 1 = (Inr (Some (mockInterface a b g)), 2)"
  by (simp add: test_defs)

subsection \<open>Claims about single runs\<close>

text \<open>
  In the statements below the resource decodes to a declared spec with the network
  identifier \<open>vpcID\<close>, the credentials are resolved and the client is built, leaving the
  world \<open>w2\<close>; the answers of the client to the fetches are given from there on, each in
  the world the fetch before it left.
\<close>

text \<open>
  Claim C1. The client answers the fetch of \<^verbatim>\<open>enableDnsSupport\<close> with \<open>r1\<close> and the
  fetch of \<^verbatim>\<open>enableDnsHostnames\<close> after it with \<open>r2\<close>, and the first of the two that is an
  error is one that \<^verbatim>\<open>IsNotFoundError\<close> accepts. Then \<^verbatim>\<open>Validate\<close> returns a report that
  ends with a NotFound finding built at \<^verbatim>\<open>networks.vpc.id\<close> with the network identifier
  as its value; this is the only NotFound finding of the report (before it stands at most
  the Invalid finding of a first attribute that was false); the failed fetch is the last
  call of the run, so no attribute is fetched after it and the gateway is never fetched.
\<close>

theorem notFound_short_circuit:
  assumes config: "InfrastructureConfigFromInfrastructure c i = Inr (Some cfg)"
    and declared: "ID (VPC (Networks cfg)) = Some vpcID"
    and creds: "GetCredentialsFromSecretRef c (SecretRef i) False w = (Inr (Some credentials), w1)"
    and client: "NewClient c (AccessKeyID credentials) (SecretAccessKey credentials) (Region i) w1 =
                   (Inr (Some awsClient), w2)"
    and first: "GetVPCAttribute awsClient vpcID ''enableDnsSupport'' w2 = (r1, w3)"
    and second: "GetVPCAttribute awsClient vpcID ''enableDnsHostnames'' w3 = (r2, w4)"
    and failed: "r1 = Inl err \<or> (\<exists>v1. r1 = Inr v1) \<and> r2 = Inl err"
    and nf: "IsNotFoundError c err"
  shows "\<exists>earlier.
     Validate c (Some i) w =
       (Returned
          (earlier @
           [\<lparr>Type = ErrorTypeNotFound, Field = Some [''networks'', ''vpc'', ''id''],
             BadValue = Some vpcID, Detail = ''''\<rparr>]),
        (if isl r1 then [GetVPCAttributeCall vpcID ''enableDnsSupport'' r1]
         else [GetVPCAttributeCall vpcID ''enableDnsSupport'' r1,
               GetVPCAttributeCall vpcID ''enableDnsHostnames'' r2]),
        (if isl r1 then w3 else w4)) \<and>
     earlier =
       (case r1 of
          Inl e \<Rightarrow> []
        | Inr v1 \<Rightarrow>
            if v1 then []
            else [\<lparr>Type = ErrorTypeInvalid, Field = Some [''networks'', ''vpc'', ''id''],
                    BadValue = Some vpcID,
                    Detail = ''VPC attribute enableDnsSupport must be set to true''\<rparr>]) \<and>
     findingsOfType ErrorTypeNotFound
       (earlier @
        [\<lparr>Type = ErrorTypeNotFound, Field = Some [''networks'', ''vpc'', ''id''],
          BadValue = Some vpcID, Detail = ''''\<rparr>]) =
       [\<lparr>Type = ErrorTypeNotFound, Field = Some [''networks'', ''vpc'', ''id''],
         BadValue = Some vpcID, Detail = ''''\<rparr>] \<and>
     PathString [''networks'', ''vpc'', ''id''] = ''networks.vpc.id''"
proof -
  note run = Validate_network_check [OF config declared creds client]
  from failed show ?thesis
  proof
    assume "r1 = Inl err"
    with run first nf show ?thesis
      by (simp add: validateVPC_def NotFound_def findingsOfType_def networks_vpc_id)
  next
    assume "(\<exists>v1. r1 = Inr v1) \<and> r2 = Inl err"
    then obtain v1 where "r1 = Inr v1" "r2 = Inl err" by blast
    with run first second nf show ?thesis
      by (simp add: validateVPC_def NotFound_def Invalid_def findingsOfType_def networks_vpc_id)
  qed
qed

theorem notFound_short_circuit_witness:
  "IsNotFoundError (testValidator (Inl (AwsErr ''InvalidVpcID.NotFound'' '''')) (Inr True) (Inr ''igw-1''))
     (AwsErr ''InvalidVpcID.NotFound'' '''') \<and>
   GetVPCAttribute (mockInterface (Inl (AwsErr ''InvalidVpcID.NotFound'' '''')) (Inr True) (Inr ''igw-1''))
     ''vpc-123456'' ''enableDnsSupport'' 2 = (Inl (AwsErr ''InvalidVpcID.NotFound'' ''''), 3) \<and>
   Validate (testValidator (Inl (AwsErr ''InvalidVpcID.NotFound'' '''')) (Inr True) (Inr ''igw-1''))
      (Some testInfra) 0 =
     (Returned
        [\<lparr>Type = ErrorTypeNotFound, Field = Some [''networks'', ''vpc'', ''id''],
          BadValue = Some ''vpc-123456'', Detail = ''''\<rparr>],
      [GetVPCAttributeCall ''vpc-123456'' ''enableDnsSupport'' (Inl (AwsErr ''InvalidVpcID.NotFound'' ''''))],
      3)"
proof -
  let ?e = "AwsErr ''InvalidVpcID.NotFound'' ''''"
  let ?cl = "mockInterface (Inl ?e) (Inr True) (Inr ''igw-1'')"
  let ?c = "testValidator (Inl ?e) (Inr True) (Inr ''igw-1'')"
  have config: "InfrastructureConfigFromInfrastructure ?c testInfra =
      Inr (Some (configWithVPC (Some ''vpc-123456'')))"
    by (simp add: test_defs)
  have declared: "ID (VPC (Networks (configWithVPC (Some ''vpc-123456'')))) = Some ''vpc-123456''"
    by (simp add: test_defs)
  have creds: "GetCredentialsFromSecretRef ?c (SecretRef testInfra) False 0 = (Inr (Some testSecret), 1)"
    by (simp add: test_defs)
  have client: "NewClient ?c (AccessKeyID testSecret) (SecretAccessKey testSecret) (Region testInfra) 1 =
      (Inr (Some ?cl), 2)"
    by (simp add: test_defs)
  have first: "GetVPCAttribute ?cl ''vpc-123456'' ''enableDnsSupport'' 2 = (Inl ?e, 3)"
    by (simp add: test_defs)
  have second: "GetVPCAttribute ?cl ''vpc-123456'' ''enableDnsHostnames'' 3 = (Inr True, 4)"
    by (simp add: test_defs)
  have failed: "(Inl ?e :: testError + bool) = Inl ?e \<or>
      (\<exists>v1. (Inl ?e :: testError + bool) = Inr v1) \<and> (Inr True :: testError + bool) = Inl ?e"
    by simp
  have nf: "IsNotFoundError ?c ?e"
    by (simp add: test_defs)
  from notFound_short_circuit [OF config declared creds client first second failed nf] nf first
  show ?thesis
    by simp
qed

text \<open>
  Claim C2, as the code has it. The client answers both attribute fetches with false and
  the gateway fetch after them with \<open>r\<close>. Then \<^verbatim>\<open>Validate\<close> makes these three calls, and
  its report starts with the two Invalid findings of the attributes, in probe order, both
  at \<^verbatim>\<open>networks.vpc.id\<close>; what follows is the finding of the gateway check alone: an
  Internal finding when that fetch fails, a third Invalid finding when it returns the empty
  identifier, nothing otherwise.
\<close>

theorem both_attributes_false:
  assumes config: "InfrastructureConfigFromInfrastructure c i = Inr (Some cfg)"
    and declared: "ID (VPC (Networks cfg)) = Some vpcID"
    and creds: "GetCredentialsFromSecretRef c (SecretRef i) False w = (Inr (Some credentials), w1)"
    and client: "NewClient c (AccessKeyID credentials) (SecretAccessKey credentials) (Region i) w1 =
                   (Inr (Some awsClient), w2)"
    and dnsSupport: "GetVPCAttribute awsClient vpcID ''enableDnsSupport'' w2 = (Inr False, w3)"
    and dnsHostnames: "GetVPCAttribute awsClient vpcID ''enableDnsHostnames'' w3 = (Inr False, w4)"
    and gateway: "GetVPCInternetGateway awsClient vpcID w4 = (r, w5)"
  shows "\<exists>rest.
     Validate c (Some i) w =
       (Returned
          ([\<lparr>Type = ErrorTypeInvalid, Field = Some [''networks'', ''vpc'', ''id''], BadValue = Some vpcID,
             Detail = ''VPC attribute enableDnsSupport must be set to true''\<rparr>,
            \<lparr>Type = ErrorTypeInvalid, Field = Some [''networks'', ''vpc'', ''id''], BadValue = Some vpcID,
             Detail = ''VPC attribute enableDnsHostnames must be set to true''\<rparr>] @ rest),
        [GetVPCAttributeCall vpcID ''enableDnsSupport'' (Inr False),
         GetVPCAttributeCall vpcID ''enableDnsHostnames'' (Inr False),
         GetVPCInternetGatewayCall vpcID r],
        w5) \<and>
     rest = (case r of
               Inl err \<Rightarrow>
                 [\<lparr>Type = ErrorTypeInternal, Field = Some [''networks'', ''vpc'', ''id''], BadValue = None,
                   Detail = ''could not get internet gateway for VPC '' @ vpcID @ '': '' @ ErrorString c err\<rparr>]
             | Inr g \<Rightarrow>
                 if g = ''''
                 then [\<lparr>Type = ErrorTypeInvalid, Field = Some [''networks'', ''vpc'', ''id''],
                        BadValue = Some vpcID, Detail = ''no attached internet gateway found''\<rparr>]
                 else []) \<and>
     length (findingsOfType ErrorTypeInvalid rest) = (if r = Inr '''' then 1 else 0) \<and>
     PathString [''networks'', ''vpc'', ''id''] = ''networks.vpc.id''"
proof -
  note run = Validate_network_check [OF config declared creds client]
  show ?thesis
  proof (cases r)
    case (Inl err)
    with run dnsSupport dnsHostnames gateway show ?thesis
      by (simp add: validateVPC_def Invalid_def InternalError_def findingsOfType_def networks_vpc_id)
  next
    case (Inr g)
    with run dnsSupport dnsHostnames gateway show ?thesis
      by (simp add: validateVPC_def Invalid_def InternalError_def findingsOfType_def networks_vpc_id)
  qed
qed

theorem both_attributes_false_witness:
  "GetVPCAttribute (mockInterface (Inr False) (Inr False) (Inr ''igw-1''))
     ''vpc-123456'' ''enableDnsSupport'' 2 = (Inr False, 3) \<and>
   GetVPCAttribute (mockInterface (Inr False) (Inr False) (Inr ''igw-1''))
     ''vpc-123456'' ''enableDnsHostnames'' 3 = (Inr False, 4) \<and>
   Validate (testValidator (Inr False) (Inr False) (Inr ''igw-1'')) (Some testInfra) 0 =
     (Returned
        [\<lparr>Type = ErrorTypeInvalid, Field = Some [''networks'', ''vpc'', ''id''],
          BadValue = Some ''vpc-123456'', Detail = ''VPC attribute enableDnsSupport must be set to true''\<rparr>,
         \<lparr>Type = ErrorTypeInvalid, Field = Some [''networks'', ''vpc'', ''id''],
          BadValue = Some ''vpc-123456'', Detail = ''VPC attribute enableDnsHostnames must be set to true''\<rparr>],
      [GetVPCAttributeCall ''vpc-123456'' ''enableDnsSupport'' (Inr False),
       GetVPCAttributeCall ''vpc-123456'' ''enableDnsHostnames'' (Inr False),
       GetVPCInternetGatewayCall ''vpc-123456'' (Inr ''igw-1'')],
      5)"
proof -
  let ?cl = "mockInterface (Inr False) (Inr False) (Inr ''igw-1'')"
  let ?c = "testValidator (Inr False) (Inr False) (Inr ''igw-1'')"
  have config: "InfrastructureConfigFromInfrastructure ?c testInfra =
      Inr (Some (configWithVPC (Some ''vpc-123456'')))"
    by (simp add: test_defs)
  have declared: "ID (VPC (Networks (configWithVPC (Some ''vpc-123456'')))) = Some ''vpc-123456''"
    by (simp add: test_defs)
  have creds: "GetCredentialsFromSecretRef ?c (SecretRef testInfra) False 0 = (Inr (Some testSecret), 1)"
    by (simp add: test_defs)
  have client: "NewClient ?c (AccessKeyID testSecret) (SecretAccessKey testSecret) (Region testInfra) 1 =
      (Inr (Some ?cl), 2)"
    by (simp add: test_defs)
  have a: "GetVPCAttribute ?cl ''vpc-123456'' ''enableDnsSupport'' 2 = (Inr False, 3)"
    by (simp add: test_defs)
  have b: "GetVPCAttribute ?cl ''vpc-123456'' ''enableDnsHostnames'' 3 = (Inr False, 4)"
    by (simp add: test_defs)
  have g: "GetVPCInternetGateway ?cl ''vpc-123456'' 4 = (Inr ''igw-1'', 5)"
    by (simp add: test_defs)
  from both_attributes_false [OF config declared creds client a b g] a b show ?thesis
    by auto
qed

text \<open>
  With both attributes false and no gateway attached (the second case of the test file)
  the report holds three Invalid findings, not two.
\<close>

theorem two_invalid_findings_counterexample:
  "Validate (testValidator (Inr False) (Inr False) (Inr '''')) (Some testInfra) 0 =
     (Returned
        [Invalid (Some [''networks'', ''vpc'', ''id'']) ''vpc-123456''
           ''VPC attribute enableDnsSupport must be set to true'',
         Invalid (Some [''networks'', ''vpc'', ''id'']) ''vpc-123456''
           ''VPC attribute enableDnsHostnames must be set to true'',
         Invalid (Some [''networks'', ''vpc'', ''id'']) ''vpc-123456''
           ''no attached internet gateway found''],
      [GetVPCAttributeCall ''vpc-123456'' ''enableDnsSupport'' (Inr False),
       GetVPCAttributeCall ''vpc-123456'' ''enableDnsHostnames'' (Inr False),
       GetVPCInternetGatewayCall ''vpc-123456'' (Inr '''')],
      5) \<and>
   length (findingsOfType ErrorTypeInvalid
        [Invalid (Some [''networks'', ''vpc'', ''id'']) ''vpc-123456''
           ''VPC attribute enableDnsSupport must be set to true'',
         Invalid (Some [''networks'', ''vpc'', ''id'']) ''vpc-123456''
           ''VPC attribute enableDnsHostnames must be set to true'',
         Invalid (Some [''networks'', ''vpc'', ''id'']) ''vpc-123456''
           ''no attached internet gateway found'']) = 3"
  by (simp add: test_defs findingsOfType_def)

text \<open>
  Claim C3. The client answers both attribute fetches with true and the gateway fetch
  after them with a non-empty identifier. Then \<^verbatim>\<open>Validate\<close> makes these three calls and
  returns the empty report.
\<close>

theorem valid_network_empty_report:
  assumes config: "InfrastructureConfigFromInfrastructure c i = Inr (Some cfg)"
    and declared: "ID (VPC (Networks cfg)) = Some vpcID"
    and creds: "GetCredentialsFromSecretRef c (SecretRef i) False w = (Inr (Some credentials), w1)"
    and client: "NewClient c (AccessKeyID credentials) (SecretAccessKey credentials) (Region i) w1 =
                   (Inr (Some awsClient), w2)"
    and dnsSupport: "GetVPCAttribute awsClient vpcID ''enableDnsSupport'' w2 = (Inr True, w3)"
    and dnsHostnames: "GetVPCAttribute awsClient vpcID ''enableDnsHostnames'' w3 = (Inr True, w4)"
    and gateway: "GetVPCInternetGateway awsClient vpcID w4 = (Inr g, w5)"
    and nonempty: "g \<noteq> ''''"
  shows "Validate c (Some i) w =
     (Returned [],
      [GetVPCAttributeCall vpcID ''enableDnsSupport'' (Inr True),
       GetVPCAttributeCall vpcID ''enableDnsHostnames'' (Inr True),
       GetVPCInternetGatewayCall vpcID (Inr g)],
      w5)"
  using Validate_network_check [OF config declared creds client]
    dnsSupport dnsHostnames gateway nonempty
  by (simp add: validateVPC_def)

theorem valid_network_empty_report_witness:
  "GetVPCAttribute (mockInterface (Inr True) (Inr True) (Inr ''vpc-123456''))
     ''vpc-123456'' ''enableDnsSupport'' 2 = (Inr True, 3) \<and>
   GetVPCAttribute (mockInterface (Inr True) (Inr True) (Inr ''vpc-123456''))
     ''vpc-123456'' ''enableDnsHostnames'' 3 = (Inr True, 4) \<and>
   GetVPCInternetGateway (mockInterface (Inr True) (Inr True) (Inr ''vpc-123456''))
     ''vpc-123456'' 4 = (Inr ''vpc-123456'', 5) \<and>
   ''vpc-123456'' \<noteq> '''' \<and>
   Validate (testValidator (Inr True) (Inr True) (Inr ''vpc-123456'')) (Some testInfra) 0 =
     (Returned [],
      [GetVPCAttributeCall ''vpc-123456'' ''enableDnsSupport'' (Inr True),
       GetVPCAttributeCall ''vpc-123456'' ''enableDnsHostnames'' (Inr True),
       GetVPCInternetGatewayCall ''vpc-123456'' (Inr ''vpc-123456'')],
      5)"
proof -
  let ?cl = "mockInterface (Inr True) (Inr True) (Inr ''vpc-123456'')"
  have a: "GetVPCAttribute ?cl ''vpc-123456'' ''enableDnsSupport'' 2 = (Inr True, 3)"
    by (simp add: test_defs)
  have b: "GetVPCAttribute ?cl ''vpc-123456'' ''enableDnsHostnames'' 3 = (Inr True, 4)"
    by (simp add: test_defs)
  have g: "GetVPCInternetGateway ?cl ''vpc-123456'' 4 = (Inr ''vpc-123456'', 5)"
    by (simp add: test_defs)
  have n: "''vpc-123456'' \<noteq> ''''"
    by simp
  from valid_network_empty_report
    [OF testValidator_config testValidator_declared testValidator_creds testValidator_client a b g n]
    a b g n
  show ?thesis
    by simp
qed

text \<open>
  Claim C4. The client answers the fetch of \<^verbatim>\<open>enableDnsSupport\<close>, the first attribute,
  with an error that \<^verbatim>\<open>IsNotFoundError\<close> rejects. Then the report of \<^verbatim>\<open>Validate\<close> is one
  Internal finding at \<^verbatim>\<open>networks.vpc.id\<close> whose detail names the attribute and the network
  identifier, and the run makes that one call: the second attribute and the gateway are
  never fetched.
\<close>

theorem internal_error_on_first_attribute:
  assumes config: "InfrastructureConfigFromInfrastructure c i = Inr (Some cfg)"
    and declared: "ID (VPC (Networks cfg)) = Some vpcID"
    and creds: "GetCredentialsFromSecretRef c (SecretRef i) False w = (Inr (Some credentials), w1)"
    and client: "NewClient c (AccessKeyID credentials) (SecretAccessKey credentials) (Region i) w1 =
                   (Inr (Some awsClient), w2)"
    and fetch: "GetVPCAttribute awsClient vpcID ''enableDnsSupport'' w2 = (Inl err, w3)"
    and other: "\<not> IsNotFoundError c err"
  shows "Validate c (Some i) w =
     (Returned
        [\<lparr>Type = ErrorTypeInternal, Field = Some [''networks'', ''vpc'', ''id''], BadValue = None,
          Detail = ''could not get VPC attribute enableDnsSupport for VPC '' @ vpcID @ '': '' @
                   ErrorString c err\<rparr>],
      [GetVPCAttributeCall vpcID ''enableDnsSupport'' (Inl err)],
      w3) \<and>
     PathString [''networks'', ''vpc'', ''id''] = ''networks.vpc.id''"
  using Validate_network_check [OF config declared creds client] fetch other
  by (simp add: validateVPC_def InternalError_def networks_vpc_id)

theorem internal_error_on_first_attribute_witness:
  "GetVPCAttribute (mockInterface (Inl (ErrorsNew ''test'')) (Inr True) (Inr ''vpc-123456''))
     ''vpc-123456'' ''enableDnsSupport'' 2 = (Inl (ErrorsNew ''test''), 3) \<and>
   \<not> IsNotFoundError (testValidator (Inl (ErrorsNew ''test'')) (Inr True) (Inr ''vpc-123456''))
       (ErrorsNew ''test'') \<and>
   Validate (testValidator (Inl (ErrorsNew ''test'')) (Inr True) (Inr ''vpc-123456'')) (Some testInfra) 0 =
     (Returned
        [\<lparr>Type = ErrorTypeInternal, Field = Some [''networks'', ''vpc'', ''id''], BadValue = None,
          Detail = ''could not get VPC attribute enableDnsSupport for VPC vpc-123456: test''\<rparr>],
      [GetVPCAttributeCall ''vpc-123456'' ''enableDnsSupport'' (Inl (ErrorsNew ''test''))],
      3)"
proof -
  let ?cl = "mockInterface (Inl (ErrorsNew ''test'')) (Inr True) (Inr ''vpc-123456'')"
  let ?c = "testValidator (Inl (ErrorsNew ''test'')) (Inr True) (Inr ''vpc-123456'')"
  have fetch: "GetVPCAttribute ?cl ''vpc-123456'' ''enableDnsSupport'' 2 = (Inl (ErrorsNew ''test''), 3)"
    by (simp add: test_defs)
  have other: "\<not> IsNotFoundError ?c (ErrorsNew ''test'')"
    by (simp add: test_defs)
  have msg: "ErrorString ?c (ErrorsNew ''test'') = ''test''"
    by (simp add: test_defs)
  from internal_error_on_first_attribute
    [OF testValidator_config testValidator_declared testValidator_creds testValidator_client fetch other]
    fetch other msg
  show ?thesis
    by simp
qed

text \<open>
  Claim C5. The client answers both attribute fetches with true and the gateway fetch
  after them with the empty identifier. Then \<^verbatim>\<open>Validate\<close> makes these three calls and
  its report is one Invalid finding at \<^verbatim>\<open>networks.vpc.id\<close> with the detail
  \<^verbatim>\<open>no attached internet gateway found\<close>.
\<close>

theorem no_gateway_invalid:
  assumes config: "InfrastructureConfigFromInfrastructure c i = Inr (Some cfg)"
    and declared: "ID (VPC (Networks cfg)) = Some vpcID"
    and creds: "GetCredentialsFromSecretRef c (SecretRef i) False w = (Inr (Some credentials), w1)"
    and client: "NewClient c (AccessKeyID credentials) (SecretAccessKey credentials) (Region i) w1 =
                   (Inr (Some awsClient), w2)"
    and dnsSupport: "GetVPCAttribute awsClient vpcID ''enableDnsSupport'' w2 = (Inr True, w3)"
    and dnsHostnames: "GetVPCAttribute awsClient vpcID ''enableDnsHostnames'' w3 = (Inr True, w4)"
    and gateway: "GetVPCInternetGateway awsClient vpcID w4 = (Inr '''', w5)"
  shows "Validate c (Some i) w =
     (Returned
        [\<lparr>Type = ErrorTypeInvalid, Field = Some [''networks'', ''vpc'', ''id''], BadValue = Some vpcID,
          Detail = ''no attached internet gateway found''\<rparr>],
      [GetVPCAttributeCall vpcID ''enableDnsSupport'' (Inr True),
       GetVPCAttributeCall vpcID ''enableDnsHostnames'' (Inr True),
       GetVPCInternetGatewayCall vpcID (Inr '''')],
      w5) \<and>
     PathString [''networks'', ''vpc'', ''id''] = ''networks.vpc.id''"
  using Validate_network_check [OF config declared creds client]
    dnsSupport dnsHostnames gateway
  by (simp add: validateVPC_def Invalid_def networks_vpc_id)

theorem no_gateway_invalid_witness:
  "GetVPCAttribute (mockInterface (Inr True) (Inr True) (Inr ''''))
     ''vpc-123456'' ''enableDnsSupport'' 2 = (Inr True, 3) \<and>
   GetVPCAttribute (mockInterface (Inr True) (Inr True) (Inr ''''))
     ''vpc-123456'' ''enableDnsHostnames'' 3 = (Inr True, 4) \<and>
   GetVPCInternetGateway (mockInterface (Inr True) (Inr True) (Inr ''''))
     ''vpc-123456'' 4 = (Inr '''', 5) \<and>
   Validate (testValidator (Inr True) (Inr True) (Inr '''')) (Some testInfra) 0 =
     (Returned
        [\<lparr>Type = ErrorTypeInvalid, Field = Some [''networks'', ''vpc'', ''id''],
          BadValue = Some ''vpc-123456'', Detail = ''no attached internet gateway found''\<rparr>],
      [GetVPCAttributeCall ''vpc-123456'' ''enableDnsSupport'' (Inr True),
       GetVPCAttributeCall ''vpc-123456'' ''enableDnsHostnames'' (Inr True),
       GetVPCInternetGatewayCall ''vpc-123456'' (Inr '''')],
      5)"
proof -
  let ?cl = "mockInterface (Inr True) (Inr True) (Inr '''')"
  have a: "GetVPCAttribute ?cl ''vpc-123456'' ''enableDnsSupport'' 2 = (Inr True, 3)"
    by (simp add: test_defs)
  have b: "GetVPCAttribute ?cl ''vpc-123456'' ''enableDnsHostnames'' 3 = (Inr True, 4)"
    by (simp add: test_defs)
  have g: "GetVPCInternetGateway ?cl ''vpc-123456'' 4 = (Inr '''', 5)"
    by (simp add: test_defs)
  from no_gateway_invalid
    [OF testValidator_config testValidator_declared testValidator_creds testValidator_client a b g]
    a b g
  show ?thesis
    by simp
qed




subsection \<open>Claims about every run\<close>






text \<open>
  Claim C9. The collaborators answer identical queries identically. Then a second call
  of \<^verbatim>\<open>Validate\<close> on the same resource, made in the world the first call left, returns
  the same outcome with the same findings in the same order, after the same cloud calls.
\<close>

theorem repeated_validate_same_report:
  assumes same: "identicalResponses c"
    and first: "Validate c infra w = (out1, tr1, w1)"
    and second: "Validate c infra w1 = (out2, tr2, w2)"
  shows "out1 = out2 \<and> tr1 = tr2"
  using Validate_identical [OF same first, of w1] second by auto

theorem repeated_validate_same_report_witness:
  "identicalResponses (testValidator (Inr False) (Inr True) (Inr '''')) \<and>
   fst (Validate (testValidator (Inr False) (Inr True) (Inr '''')) (Some testInfra) 0) =
   fst (Validate (testValidator (Inr False) (Inr True) (Inr '''')) (Some testInfra) 5) \<and>
   snd (snd (Validate (testValidator (Inr False) (Inr True) (Inr '''')) (Some testInfra) 0)) = 5"
proof -
  let ?c = "testValidator (Inr False) (Inr True) (Inr '''')"
  have same: "identicalResponses ?c"
    by (simp add: identicalResponses_def identicalClientResponses_def test_defs)
  obtain out1 tr1 where first: "Validate ?c (Some testInfra) 0 = (out1, tr1, 5)"
    by (simp add: test_defs)
  obtain out2 tr2 where second: "Validate ?c (Some testInfra) 5 = (out2, tr2, 10)"
    by (simp add: test_defs)
  from repeated_validate_same_report [OF same first second] same first second show ?thesis
    by simp
qed

text \<open>
  Claim C10. When the client answers the fetch of the first attribute with false and the
  fetch of the second with an error, the report is the Invalid finding of the first
  followed by the NotFound or Internal finding of the second, after these two calls. A
  failure before the network check (config extraction, credential resolution, client
  construction) gives an Internal finding built with the nil path and makes no cloud call;
  a run that reaches the network check makes cloud calls and builds every finding at
  \<^verbatim>\<open>networks.vpc.id\<close>; and whatever the run, its findings carry the nil path when no cloud
  call was made and \<^verbatim>\<open>networks.vpc.id\<close> otherwise.
\<close>

theorem earlier_findings_kept:
  assumes run: "Validate c infra w = (out, tr, w')"
  shows "(\<forall>i cfg vpcID credentials w1 awsClient w2 w3 err w4.
        infra = Some i \<longrightarrow>
        InfrastructureConfigFromInfrastructure c i = Inr (Some cfg) \<longrightarrow>
        ID (VPC (Networks cfg)) = Some vpcID \<longrightarrow>
        GetCredentialsFromSecretRef c (SecretRef i) False w = (Inr (Some credentials), w1) \<longrightarrow>
        NewClient c (AccessKeyID credentials) (SecretAccessKey credentials) (Region i) w1 =
          (Inr (Some awsClient), w2) \<longrightarrow>
        GetVPCAttribute awsClient vpcID ''enableDnsSupport'' w2 = (Inr False, w3) \<longrightarrow>
        GetVPCAttribute awsClient vpcID ''enableDnsHostnames'' w3 = (Inl err, w4) \<longrightarrow>
        out = Returned
          [\<lparr>Type = ErrorTypeInvalid, Field = Some [''networks'', ''vpc'', ''id''], BadValue = Some vpcID,
             Detail = ''VPC attribute enableDnsSupport must be set to true''\<rparr>,
           if IsNotFoundError c err
           then \<lparr>Type = ErrorTypeNotFound, Field = Some [''networks'', ''vpc'', ''id''],
                  BadValue = Some vpcID, Detail = ''''\<rparr>
           else \<lparr>Type = ErrorTypeInternal, Field = Some [''networks'', ''vpc'', ''id''], BadValue = None,
                  Detail = ''could not get VPC attribute enableDnsHostnames for VPC '' @ vpcID @ '': '' @
                    ErrorString c err\<rparr>] \<and>
        tr = [GetVPCAttributeCall vpcID ''enableDnsSupport'' (Inr False),
              GetVPCAttributeCall vpcID ''enableDnsHostnames'' (Inl err)] \<and>
        w' = w4) \<and>
     (\<forall>i err. infra = Some i \<longrightarrow> InfrastructureConfigFromInfrastructure c i = Inl err \<longrightarrow>
        tr = [] \<and>
        out = Returned [\<lparr>Type = ErrorTypeInternal, Field = None, BadValue = None,
                         Detail = ErrorString c err\<rparr>]) \<and>
     (\<forall>i config err w1. infra = Some i \<longrightarrow>
        InfrastructureConfigFromInfrastructure c i = Inr config \<longrightarrow>
        GetCredentialsFromSecretRef c (SecretRef i) False w = (Inl err, w1) \<longrightarrow>
        tr = [] \<and>
        out = Returned [\<lparr>Type = ErrorTypeInternal, Field = None, BadValue = None,
                         Detail = ''could not get AWS credentials: '' @ FormatPlusV c err\<rparr>]) \<and>
     (\<forall>i config credentials w1 err w2. infra = Some i \<longrightarrow>
        InfrastructureConfigFromInfrastructure c i = Inr config \<longrightarrow>
        GetCredentialsFromSecretRef c (SecretRef i) False w = (Inr (Some credentials), w1) \<longrightarrow>
        NewClient c (AccessKeyID credentials) (SecretAccessKey credentials) (Region i) w1 = (Inl err, w2) \<longrightarrow>
        tr = [] \<and>
        out = Returned [\<lparr>Type = ErrorTypeInternal, Field = None, BadValue = None,
                         Detail = ''could not create AWS client: '' @ FormatPlusV c err\<rparr>]) \<and>
     (\<forall>i cfg vpcID credentials w1 awsClient w2.
        infra = Some i \<longrightarrow>
        InfrastructureConfigFromInfrastructure c i = Inr (Some cfg) \<longrightarrow>
        ID (VPC (Networks cfg)) = Some vpcID \<longrightarrow>
        GetCredentialsFromSecretRef c (SecretRef i) False w = (Inr (Some credentials), w1) \<longrightarrow>
        NewClient c (AccessKeyID credentials) (SecretAccessKey credentials) (Region i) w1 =
          (Inr (Some awsClient), w2) \<longrightarrow>
        tr \<noteq> [] \<and>
        (\<exists>allErrs. out = Returned allErrs \<and>
           (\<forall>f\<in>set allErrs. Field f = Some [''networks'', ''vpc'', ''id'']))) \<and>
     (\<forall>allErrs. out = Returned allErrs \<longrightarrow>
        (\<forall>f\<in>set allErrs.
           if tr = [] then Type f = ErrorTypeInternal \<and> Field f = None
           else Field f = Some [''networks'', ''vpc'', ''id''])) \<and>
     PathString [''networks'', ''vpc'', ''id''] = ''networks.vpc.id''"
proof -
  have kept: "out = Returned
          [\<lparr>Type = ErrorTypeInvalid, Field = Some [''networks'', ''vpc'', ''id''], BadValue = Some vpcID,
             Detail = ''VPC attribute enableDnsSupport must be set to true''\<rparr>,
           if IsNotFoundError c err
           then \<lparr>Type = ErrorTypeNotFound, Field = Some [''networks'', ''vpc'', ''id''],
                  BadValue = Some vpcID, Detail = ''''\<rparr>
           else \<lparr>Type = ErrorTypeInternal, Field = Some [''networks'', ''vpc'', ''id''], BadValue = None,
                  Detail = ''could not get VPC attribute enableDnsHostnames for VPC '' @ vpcID @ '': '' @
                    ErrorString c err\<rparr>] \<and>
        tr = [GetVPCAttributeCall vpcID ''enableDnsSupport'' (Inr False),
              GetVPCAttributeCall vpcID ''enableDnsHostnames'' (Inl err)] \<and>
        w' = w4"
    if i: "infra = Some i"
      and config: "InfrastructureConfigFromInfrastructure c i = Inr (Some cfg)"
      and declared: "ID (VPC (Networks cfg)) = Some vpcID"
      and creds: "GetCredentialsFromSecretRef c (SecretRef i) False w = (Inr (Some credentials), w1)"
      and client: "NewClient c (AccessKeyID credentials) (SecretAccessKey credentials) (Region i) w1 =
          (Inr (Some awsClient), w2)"
      and a: "GetVPCAttribute awsClient vpcID ''enableDnsSupport'' w2 = (Inr False, w3)"
      and b: "GetVPCAttribute awsClient vpcID ''enableDnsHostnames'' w3 = (Inl err, w4)"
    for i cfg vpcID credentials w1 awsClient w2 w3 err w4
    using run Validate_network_check [OF config declared creds client] i a b
    by (cases "IsNotFoundError c err")
       (auto simp: validateVPC_def Invalid_def NotFound_def InternalError_def)
  have early: "tr = [] \<and> out = Returned [\<lparr>Type = ErrorTypeInternal, Field = None, BadValue = None,
                         Detail = ErrorString c err\<rparr>]"
    if "infra = Some i" "InfrastructureConfigFromInfrastructure c i = Inl err" for i err
    using run that unfolding Validate_def by (auto simp: InternalError_def)
  have creds: "tr = [] \<and> out = Returned [\<lparr>Type = ErrorTypeInternal, Field = None, BadValue = None,
                         Detail = ''could not get AWS credentials: '' @ FormatPlusV c err\<rparr>]"
    if "infra = Some i" "InfrastructureConfigFromInfrastructure c i = Inr config"
      "GetCredentialsFromSecretRef c (SecretRef i) False w = (Inl err, w1)" for i config err w1
    using run that unfolding Validate_def by (auto simp: InternalError_def)
  have client: "tr = [] \<and> out = Returned [\<lparr>Type = ErrorTypeInternal, Field = None, BadValue = None,
                         Detail = ''could not create AWS client: '' @ FormatPlusV c err\<rparr>]"
    if "infra = Some i" "InfrastructureConfigFromInfrastructure c i = Inr config"
      "GetCredentialsFromSecretRef c (SecretRef i) False w = (Inr (Some credentials), w1)"
      "NewClient c (AccessKeyID credentials) (SecretAccessKey credentials) (Region i) w1 = (Inl err, w2)"
    for i config credentials w1 err w2
    using run that unfolding Validate_def by (auto simp: InternalError_def)
  have reached: "tr \<noteq> [] \<and>
        (\<exists>allErrs. out = Returned allErrs \<and>
           (\<forall>f\<in>set allErrs. Field f = Some [''networks'', ''vpc'', ''id'']))"
    if i: "infra = Some i"
      and config: "InfrastructureConfigFromInfrastructure c i = Inr (Some cfg)"
      and declared: "ID (VPC (Networks cfg)) = Some vpcID"
      and creds: "GetCredentialsFromSecretRef c (SecretRef i) False w = (Inr (Some credentials), w1)"
      and client: "NewClient c (AccessKeyID credentials) (SecretAccessKey credentials) (Region i) w1 =
          (Inr (Some awsClient), w2)"
    for i cfg vpcID credentials w1 awsClient w2
  proof -
    let ?p = "Some [''networks'', ''vpc'', ''id'']"
    obtain allErrs tr0 w3 where v: "validateVPC c awsClient vpcID ?p w2 = (allErrs, tr0, w3)"
      by (metis prod_cases3)
    with run i Validate_network_check [OF config declared creds client]
    have eq: "out = Returned allErrs" "tr = tr0"
      by simp_all
    from validateVPC_runs [OF v] have errs: "allErrs = concat (map (findingsOf c ?p) tr0)"
      by blast
    from validateVPC_calls [OF v] eq have ne: "tr \<noteq> []"
      by simp
    from errs have "\<forall>f\<in>set allErrs. Field f = ?p"
      using findingsOf_types [of _ c ?p] by auto
    with eq ne show ?thesis by blast
  qed
  have paths: "if tr = [] then Type f = ErrorTypeInternal \<and> Field f = None
           else Field f = Some [''networks'', ''vpc'', ''id'']"
    if ret: "out = Returned allErrs" and f: "f \<in> set allErrs" for allErrs f
  proof (cases "tr = []")
    case True
    from run True ret f show ?thesis
      unfolding Validate_def
      by (auto simp: InternalError_def split: option.splits sum.splits prod.splits
            dest!: validateVPC_calls)
  next
    case False
    from Validate_runs [OF run False] have
      "out = Returned (concat (map (findingsOf c (Some [''networks'', ''vpc'', ''id''])) tr))"
      by blast
    with ret f False show ?thesis
      using findingsOf_types [of f c "Some [''networks'', ''vpc'', ''id'']"] by auto
  qed
  have c1: "\<forall>i cfg vpcID credentials w1 awsClient w2 w3 err w4.
        infra = Some i \<longrightarrow>
        InfrastructureConfigFromInfrastructure c i = Inr (Some cfg) \<longrightarrow>
        ID (VPC (Networks cfg)) = Some vpcID \<longrightarrow>
        GetCredentialsFromSecretRef c (SecretRef i) False w = (Inr (Some credentials), w1) \<longrightarrow>
        NewClient c (AccessKeyID credentials) (SecretAccessKey credentials) (Region i) w1 =
          (Inr (Some awsClient), w2) \<longrightarrow>
        GetVPCAttribute awsClient vpcID ''enableDnsSupport'' w2 = (Inr False, w3) \<longrightarrow>
        GetVPCAttribute awsClient vpcID ''enableDnsHostnames'' w3 = (Inl err, w4) \<longrightarrow>
        out = Returned
          [\<lparr>Type = ErrorTypeInvalid, Field = Some [''networks'', ''vpc'', ''id''], BadValue = Some vpcID,
             Detail = ''VPC attribute enableDnsSupport must be set to true''\<rparr>,
           if IsNotFoundError c err
           then \<lparr>Type = ErrorTypeNotFound, Field = Some [''networks'', ''vpc'', ''id''],
                  BadValue = Some vpcID, Detail = ''''\<rparr>
           else \<lparr>Type = ErrorTypeInternal, Field = Some [''networks'', ''vpc'', ''id''], BadValue = None,
                  Detail = ''could not get VPC attribute enableDnsHostnames for VPC '' @ vpcID @ '': '' @
                    ErrorString c err\<rparr>] \<and>
        tr = [GetVPCAttributeCall vpcID ''enableDnsSupport'' (Inr False),
              GetVPCAttributeCall vpcID ''enableDnsHostnames'' (Inl err)] \<and>
        w' = w4"
    using kept by blast
  have c2: "\<forall>i err. infra = Some i \<longrightarrow> InfrastructureConfigFromInfrastructure c i = Inl err \<longrightarrow>
        tr = [] \<and>
        out = Returned [\<lparr>Type = ErrorTypeInternal, Field = None, BadValue = None,
                         Detail = ErrorString c err\<rparr>]"
    using early by blast
  have c3: "\<forall>i config err w1. infra = Some i \<longrightarrow>
        InfrastructureConfigFromInfrastructure c i = Inr config \<longrightarrow>
        GetCredentialsFromSecretRef c (SecretRef i) False w = (Inl err, w1) \<longrightarrow>
        tr = [] \<and>
        out = Returned [\<lparr>Type = ErrorTypeInternal, Field = None, BadValue = None,
                         Detail = ''could not get AWS credentials: '' @ FormatPlusV c err\<rparr>]"
    using creds by blast
  have c4: "\<forall>i config credentials w1 err w2. infra = Some i \<longrightarrow>
        InfrastructureConfigFromInfrastructure c i = Inr config \<longrightarrow>
        GetCredentialsFromSecretRef c (SecretRef i) False w = (Inr (Some credentials), w1) \<longrightarrow>
        NewClient c (AccessKeyID credentials) (SecretAccessKey credentials) (Region i) w1 = (Inl err, w2) \<longrightarrow>
        tr = [] \<and>
        out = Returned [\<lparr>Type = ErrorTypeInternal, Field = None, BadValue = None,
                         Detail = ''could not create AWS client: '' @ FormatPlusV c err\<rparr>]"
    using client by blast
  have c5: "\<forall>i cfg vpcID credentials w1 awsClient w2.
        infra = Some i \<longrightarrow>
        InfrastructureConfigFromInfrastructure c i = Inr (Some cfg) \<longrightarrow>
        ID (VPC (Networks cfg)) = Some vpcID \<longrightarrow>
        GetCredentialsFromSecretRef c (SecretRef i) False w = (Inr (Some credentials), w1) \<longrightarrow>
        NewClient c (AccessKeyID credentials) (SecretAccessKey credentials) (Region i) w1 =
          (Inr (Some awsClient), w2) \<longrightarrow>
        tr \<noteq> [] \<and>
        (\<exists>allErrs. out = Returned allErrs \<and>
           (\<forall>f\<in>set allErrs. Field f = Some [''networks'', ''vpc'', ''id'']))"
    using reached by blast
  have c6: "\<forall>allErrs. out = Returned allErrs \<longrightarrow>
        (\<forall>f\<in>set allErrs.
           if tr = [] then Type f = ErrorTypeInternal \<and> Field f = None
           else Field f = Some [''networks'', ''vpc'', ''id''])"
    using paths by blast
  from c1 c2 c3 c4 c5 c6 networks_vpc_id show ?thesis
    by (intro conjI)
qed

theorem earlier_findings_kept_witness:
  "GetVPCAttribute (mockInterface (Inr False) (Inl (AwsErr ''InvalidVpcID.NotFound'' '''')) (Inr ''igw-1''))
     ''vpc-123456'' ''enableDnsSupport'' 2 = (Inr False, 3) \<and>
   GetVPCAttribute (mockInterface (Inr False) (Inl (AwsErr ''InvalidVpcID.NotFound'' '''')) (Inr ''igw-1''))
     ''vpc-123456'' ''enableDnsHostnames'' 3 = (Inl (AwsErr ''InvalidVpcID.NotFound'' ''''), 4) \<and>
   Validate (testValidator (Inr False) (Inl (AwsErr ''InvalidVpcID.NotFound'' '''')) (Inr ''igw-1''))
     (Some testInfra) 0 =
     (Returned
        [\<lparr>Type = ErrorTypeInvalid, Field = Some [''networks'', ''vpc'', ''id''],
          BadValue = Some ''vpc-123456'', Detail = ''VPC attribute enableDnsSupport must be set to true''\<rparr>,
         \<lparr>Type = ErrorTypeNotFound, Field = Some [''networks'', ''vpc'', ''id''],
          BadValue = Some ''vpc-123456'', Detail = ''''\<rparr>],
      [GetVPCAttributeCall ''vpc-123456'' ''enableDnsSupport'' (Inr False),
       GetVPCAttributeCall ''vpc-123456'' ''enableDnsHostnames'' (Inl (AwsErr ''InvalidVpcID.NotFound'' ''''))],
      4)"
proof -
  let ?e = "AwsErr ''InvalidVpcID.NotFound'' ''''"
  let ?cl = "mockInterface (Inr False) (Inl ?e) (Inr ''igw-1'')"
  let ?c = "testValidator (Inr False) (Inl ?e) (Inr ''igw-1'')"
  obtain out tr w' where run: "Validate ?c (Some testInfra) 0 = (out, tr, w')"
    by (metis prod_cases3)
  have a: "GetVPCAttribute ?cl ''vpc-123456'' ''enableDnsSupport'' 2 = (Inr False, 3)"
    by (simp add: test_defs)
  have b: "GetVPCAttribute ?cl ''vpc-123456'' ''enableDnsHostnames'' 3 = (Inl ?e, 4)"
    by (simp add: test_defs)
  have nf: "IsNotFoundError ?c ?e"
    by (simp add: test_defs)
  note kept = earlier_findings_kept [OF run, THEN conjunct1, rule_format,
    OF refl testValidator_config testValidator_declared testValidator_creds testValidator_client a b]
  from kept run nf a b show ?thesis
    by simp
qed

end
